theory Spec2Isabelle
  imports Main "HOL-Library.Word" "HOL-Library.Sublist" "HOL-Library.AList"
begin

unbundle bit_operations_syntax

section \<open>The recorder package: recording and replaying HTTP exchanges\<close>

text \<open>
  This theory embeds \<^verbatim>\<open>recorder/recorder.go\<close>: the functions \<^verbatim>\<open>buildName\<close>,
  \<^verbatim>\<open>Record\<close> and \<^verbatim>\<open>ReplayFS\<close>. The two hash primitives that \<^verbatim>\<open>buildName\<close> calls
  (\<^verbatim>\<open>crypto/md5\<close> and \<^verbatim>\<open>encoding/base64\<close>) are fixed, published algorithms and are
  written out, so that file names can be computed. The HTTP wire codec
  (\<^verbatim>\<open>httputil.DumpRequest\<close>, \<^verbatim>\<open>httputil.DumpResponse\<close>, \<^verbatim>\<open>http.ReadResponse\<close>), the
  default transport and the outcomes of \<^verbatim>\<open>os.MkdirAll\<close> and \<^verbatim>\<open>os.WriteFile\<close> are not
  code of the package: they are parameters of the model, collected in the record
  \<open>env\<close>, and every property is stated for an arbitrary \<open>env\<close>.
\<close>

subsection \<open>Bytes\<close>

type_synonym byte = "8 word"
type_synonym bytes = "8 word list"

subsection \<open>crypto/md5 (RFC 1321)\<close>

definition md5_K :: "32 word list" where
  "md5_K =
    [0xd76aa478, 0xe8c7b756, 0x242070db, 0xc1bdceee, 0xf57c0faf, 0x4787c62a, 0xa8304613, 0xfd469501,
     0x698098d8, 0x8b44f7af, 0xffff5bb1, 0x895cd7be, 0x6b901122, 0xfd987193, 0xa679438e, 0x49b40821,
     0xf61e2562, 0xc040b340, 0x265e5a51, 0xe9b6c7aa, 0xd62f105d, 0x02441453, 0xd8a1e681, 0xe7d3fbc8,
     0x21e1cde6, 0xc33707d6, 0xf4d50d87, 0x455a14ed, 0xa9e3e905, 0xfcefa3f8, 0x676f02d9, 0x8d2a4c8a,
     0xfffa3942, 0x8771f681, 0x6d9d6122, 0xfde5380c, 0xa4beea44, 0x4bdecfa9, 0xf6bb4b60, 0xbebfbc70,
     0x289b7ec6, 0xeaa127fa, 0xd4ef3085, 0x04881d05, 0xd9d4d039, 0xe6db99e5, 0x1fa27cf8, 0xc4ac5665,
     0xf4292244, 0x432aff97, 0xab9423a7, 0xfc93a039, 0x655b59c3, 0x8f0ccc92, 0xffeff47d, 0x85845dd1,
     0x6fa87e4f, 0xfe2ce6e0, 0xa3014314, 0x4e0811a1, 0xf7537e82, 0xbd3af235, 0x2ad7d2bb, 0xeb86d391]"

definition md5_s :: "nat list" where
  "md5_s =
    [7, 12, 17, 22, 7, 12, 17, 22, 7, 12, 17, 22, 7, 12, 17, 22,
     5, 9, 14, 20, 5, 9, 14, 20, 5, 9, 14, 20, 5, 9, 14, 20,
     4, 11, 16, 23, 4, 11, 16, 23, 4, 11, 16, 23, 4, 11, 16, 23,
     6, 10, 15, 21, 6, 10, 15, 21, 6, 10, 15, 21, 6, 10, 15, 21]"

text \<open>Little-endian reading and writing of 32-bit and 64-bit words.\<close>

definition le32 :: "byte \<Rightarrow> byte \<Rightarrow> byte \<Rightarrow> byte \<Rightarrow> 32 word" where
  "le32 a b c d =
     ucast a OR push_bit 8 (ucast b) OR push_bit 16 (ucast c) OR push_bit 24 (ucast d)"

fun md5_words :: "bytes \<Rightarrow> 32 word list" where
  "md5_words (a # b # c # d # bs) = le32 a b c d # md5_words bs"
| "md5_words _ = []"

definition put32 :: "32 word \<Rightarrow> bytes" where
  "put32 w = [ucast w, ucast (drop_bit 8 w), ucast (drop_bit 16 w), ucast (drop_bit 24 w)]"

definition put64 :: "64 word \<Rightarrow> bytes" where
  "put64 w = put32 (ucast w) @ put32 (ucast (drop_bit 32 w))"

text \<open>
  Padding: one byte \<open>0x80\<close>, zero bytes up to 56 modulo 64, then the length of the
  message in bits as a 64-bit little-endian word.
\<close>

definition md5_pad :: "bytes \<Rightarrow> bytes" where
  "md5_pad b = b @ [0x80] @ replicate ((119 - length b mod 64) mod 64) 0
                 @ put64 (push_bit 3 (of_nat (length b)))"

type_synonym md5_state = "32 word \<times> 32 word \<times> 32 word \<times> 32 word"

definition md5_step :: "32 word list \<Rightarrow> md5_state \<Rightarrow> nat \<Rightarrow> md5_state" where
  "md5_step M st i = (case st of (a, b, c, d) \<Rightarrow>
     let (f, g) =
           (if i < 16 then ((b AND c) OR (NOT b AND d), i)
            else if i < 32 then ((d AND b) OR (NOT d AND c), (5 * i + 1) mod 16)
            else if i < 48 then (b XOR c XOR d, (3 * i + 5) mod 16)
            else (c XOR (b OR NOT d), (7 * i) mod 16));
         f' = f + a + md5_K ! i + M ! g
     in (d, b + word_rotl (md5_s ! i) f', b, c))"

definition md5_block :: "md5_state \<Rightarrow> bytes \<Rightarrow> md5_state" where
  "md5_block st blk = (case st of (a0, b0, c0, d0) \<Rightarrow>
     case foldl (md5_step (md5_words blk)) st [0..<64] of
       (a, b, c, d) \<Rightarrow> (a0 + a, b0 + b, c0 + c, d0 + d))"

fun md5_blocks :: "nat \<Rightarrow> md5_state \<Rightarrow> bytes \<Rightarrow> md5_state" where
  "md5_blocks 0 st bs = st"
| "md5_blocks (Suc n) st bs = md5_blocks n (md5_block st (take 64 bs)) (drop 64 bs)"

text \<open>\<^verbatim>\<open>h := md5.New(); h.Write(b); h.Sum(nil)\<close>: the 16-byte digest of \<open>b\<close>.\<close>

definition md5_Sum :: "bytes \<Rightarrow> bytes" where
  "md5_Sum b = (let p = md5_pad b in
     case md5_blocks (length p div 64) (0x67452301, 0xefcdab89, 0x98badcfe, 0x10325476) p of
       (a, b, c, d) \<Rightarrow> put32 a @ put32 b @ put32 c @ put32 d)"

subsection \<open>encoding/base64: \<^verbatim>\<open>base64.URLEncoding.EncodeToString\<close> (RFC 4648, section 5)\<close>

definition encodeURL :: string where
  "encodeURL = ''ABCDEFGHIJKLMNOPQRSTUVWXYZabcdefghijklmnopqrstuvwxyz0123456789-_''"

definition encode6 :: "32 word \<Rightarrow> char" where
  "encode6 v = encodeURL ! unat (v AND 0x3F)"

definition val24 :: "byte \<Rightarrow> byte \<Rightarrow> byte \<Rightarrow> 32 word" where
  "val24 a b c = push_bit 16 (ucast a) OR push_bit 8 (ucast b) OR ucast c"

text \<open>
  Three bytes give four characters; a rest of two bytes gives three characters and one
  padding character, a rest of one byte two characters and two padding characters.
\<close>

fun EncodeToString :: "bytes \<Rightarrow> string" where
  "EncodeToString (a # b # c # bs) =
     (let v = val24 a b c in
        [encode6 (drop_bit 18 v), encode6 (drop_bit 12 v), encode6 (drop_bit 6 v), encode6 v])
     @ EncodeToString bs"
| "EncodeToString [a, b] =
     (let v = val24 a b 0 in
        [encode6 (drop_bit 18 v), encode6 (drop_bit 12 v), encode6 (drop_bit 6 v), CHR ''=''])"
| "EncodeToString [a] =
     (let v = val24 a 0 0 in
        [encode6 (drop_bit 18 v), encode6 (drop_bit 12 v), CHR ''='', CHR ''=''])"
| "EncodeToString [] = []"

subsection \<open>buildName\<close>

text \<open>
  \<^verbatim>\<open>s[:8]\<close> panics in Go when \<open>s\<close> has fewer than 8 bytes. The encoded digest always
  has 24 characters (lemma \<open>EncodeToString_md5_length\<close> below), so the slice is
  \<open>take 8\<close>.
\<close>

definition buildName :: "bytes \<Rightarrow> string \<times> string" where
  "buildName b =
     (let s = EncodeToString (md5_Sum b)
      in (take 8 s @ ''.req.txt'', take 8 s @ ''.res.txt''))"

subsection \<open>Requests, responses and errors\<close>

text \<open>
  The fields of \<^verbatim>\<open>http.Request\<close> and \<^verbatim>\<open>http.Response\<close> that the package or its
  filters touch. A header is Go's \<^verbatim>\<open>map[string][]string\<close>. A body is the byte
  content of the \<^verbatim>\<open>io.ReadCloser\<close>: \<^verbatim>\<open>DumpRequest\<close> and \<^verbatim>\<open>DumpResponse\<close> drain the
  stream and put a reader over the same bytes back, so the content is what survives.
\<close>

record request =
  Method :: string
  URL :: string
  Header :: "string \<rightharpoonup> string list"
  Body :: bytes

record response =
  StatusCode :: int
  Header :: "string \<rightharpoonup> string list"
  Body :: bytes
  Request :: "request option"

text \<open>\<^verbatim>\<open>Header.Del(key)\<close>, for a key already in canonical form.\<close>

definition Del :: "(string \<rightharpoonup> string list) \<Rightarrow> string \<Rightarrow> (string \<rightharpoonup> string list)" where
  "Del h key = h(key := None)"

text \<open>
  Error values. \<open>Lib m\<close> is an error returned by a library call (\<^verbatim>\<open>os\<close>, \<^verbatim>\<open>io/fs\<close>,
  \<^verbatim>\<open>httputil\<close>, \<^verbatim>\<open>net/http\<close>) with message \<open>m\<close>; \<open>errors_New m\<close> is a sentinel made
  by \<^verbatim>\<open>errors.New\<close> in this package; \<open>Errorf m\<close> is \<^verbatim>\<open>fmt.Errorf\<close> without \<^verbatim>\<open>%w\<close>;
  \<open>Errorf_w pre e post\<close> is \<^verbatim>\<open>fmt.Errorf\<close> whose format has the text \<open>pre\<close>, then
  \<^verbatim>\<open>%w\<close> applied to \<open>e\<close>, then the text \<open>post\<close>.
\<close>

datatype error =
    Lib string
  | errors_New string
  | Errorf string
  | Errorf_w string error string

definition errNotFound :: error where
  "errNotFound = errors_New ''response not found''"

text \<open>\<^verbatim>\<open>errors.Is(err, target)\<close>: the way a caller tells a sentinel through wrapping.\<close>

fun errors_Is :: "error \<Rightarrow> error \<Rightarrow> bool" where
  "errors_Is (Errorf_w pre e post) target =
     (Errorf_w pre e post = target \<or> errors_Is e target)"
| "errors_Is e target = (e = target)"

text \<open>
  The verb \<^verbatim>\<open>%q\<close> on a string of printable ASCII characters without quote or
  backslash, which is what the package formats: the string between double quotes.
\<close>

definition quote :: "string \<Rightarrow> string" where
  "quote s = [CHR 0x22] @ s @ [CHR 0x22]"

subsection \<open>The environment\<close>

type_synonym RoundTripper = "request \<Rightarrow> error + response"

text \<open>
  What the package calls and does not define. The codec functions return the library's
  error message or the result. \<open>MkdirAll\<close> and \<open>WriteFile_error\<close> give, for a path,
  the error with which the operating system refuses the call, if it does.
\<close>

record env =
  DumpRequest :: "request \<Rightarrow> string + bytes"
  DumpResponse :: "response \<Rightarrow> string + bytes"
  ReadResponse :: "bytes \<Rightarrow> request \<Rightarrow> string + response"
  DefaultTransport :: RoundTripper
  MkdirAll :: "string \<Rightarrow> string option"
  WriteFile_error :: "string \<Rightarrow> string option"

subsection \<open>The fixture store\<close>

text \<open>
  A store is a tree of files, each under its slash-separated path from the root of the
  store; a path without \<^verbatim>\<open>/\<close> is a file of the root directory. The state of a
  recording is the store at \<^verbatim>\<open>basepath\<close> and the list of the requests handed to the
  live transport so far (oldest first), which is kept to speak about network activity.
\<close>

type_synonym fsys = "(string \<times> bytes) list"

record world =
  files :: fsys
  calls :: "request list"

text \<open>
  \<^verbatim>\<open>filepath.Join(basepath, name)\<close> with \<^verbatim>\<open>/\<close> as separator: the non-empty elements are
  joined with a separator and the result is cleaned by \<^verbatim>\<open>filepath.Clean\<close>, which drops
  empty and \<^verbatim>\<open>.\<close> elements and resolves \<^verbatim>\<open>..\<close> against the element before it.
\<close>

fun splitSlash :: "string \<Rightarrow> string list" where
  "splitSlash [] = [[]]"
| "splitSlash (c # cs) =
     (if c = CHR ''/'' then [] # splitSlash cs
      else (case splitSlash cs of [] \<Rightarrow> [[c]] | e # es \<Rightarrow> (c # e) # es))"

fun joinSlash :: "string list \<Rightarrow> string" where
  "joinSlash [] = []"
| "joinSlash [e] = e"
| "joinSlash (e # es) = e @ ''/'' @ joinSlash es"

text \<open>The elements kept so far are in \<open>out\<close>, the last one first.\<close>

fun cleanElems :: "bool \<Rightarrow> string list \<Rightarrow> string list \<Rightarrow> string list" where
  "cleanElems rooted out [] = rev out"
| "cleanElems rooted out (e # es) =
     (if e = [] \<or> e = ''.'' then cleanElems rooted out es
      else if e = ''..'' then
        (case out of
           [] \<Rightarrow> if rooted then cleanElems rooted out es else cleanElems rooted (e # out) es
         | x # out' \<Rightarrow>
             if x = ''..'' then cleanElems rooted (e # out) es else cleanElems rooted out' es)
      else cleanElems rooted (e # out) es)"

definition Clean :: "string \<Rightarrow> string" where
  "Clean path =
     (let rooted = (case path of [] \<Rightarrow> False | c # cs \<Rightarrow> c = CHR ''/'');
          r = (if rooted then ''/'' else []) @ joinSlash (cleanElems rooted [] (splitSlash path))
      in if r = [] then ''.'' else r)"

definition Join :: "string \<Rightarrow> string \<Rightarrow> string" where
  "Join dir name =
     (let elems = filter (\<lambda>e. e \<noteq> []) [dir, name]
      in if elems = [] then [] else Clean (joinSlash elems))"

text \<open>
  \<^verbatim>\<open>os.WriteFile(filepath.Join(basepath, name), b, 0o644)\<close>: the file \<open>name\<close> of the
  root directory of the store is created or replaced, unless the operating system
  refuses (for any reason: permissions, a missing directory, a directory of that name).
\<close>

definition WriteFile :: "env \<Rightarrow> string \<Rightarrow> string \<Rightarrow> bytes \<Rightarrow> world \<Rightarrow> string + world" where
  "WriteFile env basepath name b w =
     (case WriteFile_error env (Join basepath name) of
        Some err \<Rightarrow> Inl err
      | None \<Rightarrow> Inr (w\<lparr>files := AList.update name b (files w)\<rparr>))"

text \<open>
  \<^verbatim>\<open>fs.ReadDir(fsys, ".")\<close>: the names of the entries of the root directory. A file of
  the root is an entry under its name, a file further down makes the sub-directory it
  is in an entry, under the first element of its path.
\<close>

definition ReadDir :: "fsys \<Rightarrow> string list" where
  "ReadDir fsys = remdups (map (\<lambda>(path, b). takeWhile (\<lambda>c. c \<noteq> CHR ''/'') path) fsys)"

text \<open>
  \<^verbatim>\<open>fs.ReadFile(fsys, name)\<close>: the content of the file, or the error of opening a name
  that does not exist or of reading one that is a directory.
\<close>

definition ReadFile :: "fsys \<Rightarrow> string \<Rightarrow> string + bytes" where
  "ReadFile fsys name =
     (case map_of fsys name of
        Some b \<Rightarrow> Inr b
      | None \<Rightarrow>
          if name \<in> set (ReadDir fsys)
          then Inl (''read '' @ name @ '': is a directory'')
          else Inl (''open '' @ name @ '': file does not exist''))"

text \<open>
  \<^verbatim>\<open>path.Match\<close> for patterns made of \<^verbatim>\<open>*\<close>, \<^verbatim>\<open>?\<close> and literal characters: \<^verbatim>\<open>*\<close>
  matches any sequence of characters other than \<^verbatim>\<open>/\<close>, \<^verbatim>\<open>?\<close> one such character.
\<close>

fun Match :: "string \<Rightarrow> string \<Rightarrow> bool" where
  "Match [] name = (name = [])"
| "Match (c # p) [] = (c = CHR ''*'' \<and> Match p [])"
| "Match (c # p) (x # name) =
     (if c = CHR ''*'' then Match p (x # name) \<or> (x \<noteq> CHR ''/'' \<and> Match (c # p) name)
      else (c = x \<or> (c = CHR ''?'' \<and> x \<noteq> CHR ''/'')) \<and> Match p name)"

text \<open>
  \<^verbatim>\<open>fs.Glob(fsys, pattern)\<close> for a pattern without \<^verbatim>\<open>/\<close>: the entries of the root
  directory whose names match; sub-directories are not entered. Character classes and escapes are not modelled: a
  pattern with \<^verbatim>\<open>[\<close> or a backslash is answered with an error here. \<open>ReplayFS\<close> never
  builds one (lemma \<open>Glob_resname\<close> below).
\<close>

definition Glob :: "fsys \<Rightarrow> string \<Rightarrow> string + string list" where
  "Glob fsys pattern =
     (if CHR ''['' \<in> set pattern \<or> CHR 0x5C \<in> set pattern
      then Inl ''pattern outside the modelled fragment''
      else Inr (filter (Match pattern) (ReadDir fsys)))"

subsection \<open>Record\<close>

record Filters =
  RequestFilter :: "(request \<Rightarrow> request) option"
  ResponseFilter :: "(response \<Rightarrow> response) option"

text \<open>
  \<^verbatim>\<open>if f != nil && f.RequestFilter != nil { f.RequestFilter(dumpReq) }\<close>: the filter
  mutates the object it is given; the model returns the object after the call.
\<close>

definition applyRequestFilter :: "Filters option \<Rightarrow> request \<Rightarrow> request" where
  "applyRequestFilter f dumpReq =
     (case f of
        None \<Rightarrow> dumpReq
      | Some fl \<Rightarrow> (case RequestFilter fl of None \<Rightarrow> dumpReq | Some g \<Rightarrow> g dumpReq))"

text \<open>\<^verbatim>\<open>if f != nil && f.ResponseFilter != nil { f.ResponseFilter(res) }\<close>.\<close>

definition applyResponseFilter :: "Filters option \<Rightarrow> response \<Rightarrow> response" where
  "applyResponseFilter f res =
     (case f of
        None \<Rightarrow> res
      | Some fl \<Rightarrow> (case ResponseFilter fl of None \<Rightarrow> res | Some g \<Rightarrow> g res))"

text \<open>The deferred wrapping of a non-nil error.\<close>

definition recording :: "error \<Rightarrow> error" where
  "recording err = Errorf_w ''problem while recording transport: '' err []"

text \<open>
  The round tripper that \<^verbatim>\<open>Record(rt, basepath, f)\<close> returns, applied to a request in a
  world. It returns the result and the world after the call.

  \<^item> \<^verbatim>\<open>req.Clone\<close> copies the header map, so the clone \<open>dumpReq\<close> is a value of its
    own; the body is the one stream both share, which is why the content that
    \<^verbatim>\<open>DumpRequest\<close> leaves in \<^verbatim>\<open>dumpReq.Body\<close> is put back into \<open>req\<close>.
  \<^item> The result of \<^verbatim>\<open>os.MkdirAll\<close> is assigned to \<^verbatim>\<open>_\<close>.
  \<^item> \<open>res\<close> is a pointer: the filter changes the object that is then returned.
\<close>

definition Record ::
  "env \<Rightarrow> RoundTripper option \<Rightarrow> string \<Rightarrow> Filters option \<Rightarrow> request \<Rightarrow> world
     \<Rightarrow> (error + response) \<times> world" where
  "Record env rt basepath f req w =
     (let rt = (case rt of None \<Rightarrow> DefaultTransport env | Some t \<Rightarrow> t);
          _ = MkdirAll env basepath;
          dumpReq = req;
          dumpReq = dumpReq\<lparr>request.Body := request.Body req\<rparr>;
          dumpReq = applyRequestFilter f dumpReq
      in (case DumpRequest env dumpReq of
            Inl err \<Rightarrow> (Inl (recording (Lib err)), w)
          | Inr b \<Rightarrow>
             (let req = req\<lparr>request.Body := request.Body dumpReq\<rparr>;
                  (reqname, resname) = buildName b
              in (case WriteFile env basepath reqname b w of
                    Inl err \<Rightarrow> (Inl (recording (Lib err)), w)
                  | Inr w \<Rightarrow>
                     (let w = w\<lparr>calls := calls w @ [req]\<rparr>
                      in (case rt req of
                            Inl err \<Rightarrow> (Inl (recording err), w)
                          | Inr res \<Rightarrow>
                             (let res = applyResponseFilter f res
                              in (case DumpResponse env res of
                                    Inl err \<Rightarrow> (Inl (recording (Lib err)), w)
                                  | Inr b \<Rightarrow>
                                     (case WriteFile env basepath resname b w of
                                        Inl err \<Rightarrow> (Inl (recording (Lib err)), w)
                                      | Inr w \<Rightarrow> (Inr res, w))))))))))"

subsection \<open>ReplayFS\<close>

definition replaying :: "error \<Rightarrow> error" where
  "replaying err = Errorf_w ''problem while replaying transport: '' err []"

text \<open>The round tripper that \<^verbatim>\<open>ReplayFS(fsys)\<close> returns, applied to a request.\<close>

definition ReplayFS :: "env \<Rightarrow> fsys \<Rightarrow> RoundTripper" where
  "ReplayFS env fsys req =
     (case DumpRequest env req of
        Inl err \<Rightarrow> Inl (replaying (Lib err))
      | Inr b \<Rightarrow>
         (let name = snd (buildName b);
              glob = ''*'' @ name
          in (case Glob fsys glob of
                Inl err \<Rightarrow> Inl (replaying (Lib err))
              | Inr matches \<Rightarrow>
                 (if length matches = 0
                  then Inl (replaying (Errorf_w [] errNotFound
                         ('': no replay file matches '' @ quote glob)))
                  else if length matches > 1
                  then Inl (replaying (Errorf
                         (''ambiguous response: multiple replay files match '' @ quote glob)))
                  else (case ReadFile fsys (matches ! 0) of
                          Inl err \<Rightarrow> Inl (replaying (Lib err))
                        | Inr b \<Rightarrow>
                           (case ReadResponse env b req of
                              Inl err \<Rightarrow> Inl (replaying (Lib err))
                            | Inr res \<Rightarrow> Inr res))))))"

subsection \<open>Equivalence of responses\<close>

text \<open>
  Two responses are equivalent when status, headers and body agree. The request that
  \<^verbatim>\<open>http.ReadResponse\<close> attaches to the response it parses is not compared.
\<close>

definition equivalent :: "response \<Rightarrow> response \<Rightarrow> bool" where
  "equivalent r r' =
     (StatusCode r = StatusCode r' \<and> response.Header r = response.Header r'
      \<and> response.Body r = response.Body r')"

subsection \<open>A sample environment\<close>

text \<open>
  A small wire codec, transports, filters and worlds on which the model is run at
  concrete inputs. The general theorems below are about an arbitrary environment and do
  not mention them.
\<close>

definition sample_DumpRequest :: "request \<Rightarrow> string + bytes" where
  "sample_DumpRequest r =
     Inr (map of_char (Method r @ '' '' @ URL r
            @ (case request.Header r ''Authorization'' of
                 None \<Rightarrow> []
               | Some vs \<Rightarrow> '' Authorization: '' @ concat vs))
          @ request.Body r)"

definition sample_DumpResponse :: "response \<Rightarrow> string + bytes" where
  "sample_DumpResponse r =
     (if 0 \<le> StatusCode r \<and> StatusCode r < 256
      then Inr (of_int (StatusCode r) # response.Body r)
      else Inl ''status code out of range'')"

definition sample_ReadResponse :: "bytes \<Rightarrow> request \<Rightarrow> string + response" where
  "sample_ReadResponse b req =
     (case b of
        [] \<Rightarrow> Inl ''unexpected EOF''
      | c # body \<Rightarrow>
          Inr \<lparr>StatusCode = uint c, Header = Map.empty, Body = body, Request = Some req\<rparr>)"

definition sample_ok :: bytes where
  "sample_ok = map of_char ''ok''"

text \<open>
  A reader that, as \<^verbatim>\<open>http.ReadResponse\<close> does, keeps the length of the body it has
  read as a \<^verbatim>\<open>Content-Length\<close> header.
\<close>

fun decimal :: "nat \<Rightarrow> string" where
  "decimal n =
     (if n < 10 then [''0123456789'' ! n]
      else decimal (n div 10) @ [''0123456789'' ! (n mod 10)])"

definition sample_ReadResponse_length :: "bytes \<Rightarrow> request \<Rightarrow> string + response" where
  "sample_ReadResponse_length b req =
     (case b of
        [] \<Rightarrow> Inl ''unexpected EOF''
      | c # body \<Rightarrow>
          Inr \<lparr>StatusCode = uint c, Header = [''Content-Length'' \<mapsto> [decimal (length body)]],
               Body = body, Request = Some req\<rparr>)"

definition sample_res :: response where
  "sample_res = \<lparr>StatusCode = 200, Header = Map.empty, Body = sample_ok, Request = None\<rparr>"

definition sample_cookie_res :: response where
  "sample_cookie_res = sample_res\<lparr>response.Header := [''Set-Cookie'' \<mapsto> [''sid=1'']]\<rparr>"

definition sample_rt :: RoundTripper where
  "sample_rt req = Inr sample_res"

definition sample_cookie_rt :: RoundTripper where
  "sample_cookie_rt req = Inr sample_cookie_res"

definition sample_failing_rt :: RoundTripper where
  "sample_failing_rt req = Inl (Lib ''connection refused'')"

definition sample_env :: env where
  "sample_env =
     \<lparr>DumpRequest = sample_DumpRequest, DumpResponse = sample_DumpResponse,
      ReadResponse = sample_ReadResponse, DefaultTransport = sample_rt,
      MkdirAll = (\<lambda>path. None), WriteFile_error = (\<lambda>path. None)\<rparr>"

definition sample_env_length :: env where
  "sample_env_length = sample_env\<lparr>ReadResponse := sample_ReadResponse_length\<rparr>"

text \<open>
  \<^verbatim>\<open>os.MkdirAll("", 0o755)\<close> fails, while \<^verbatim>\<open>filepath.Join("", name)\<close> is \<^verbatim>\<open>name\<close>, a
  path in the current directory that can be written.
\<close>

definition sample_env_mkdir_fails :: env where
  "sample_env_mkdir_fails =
     sample_env\<lparr>MkdirAll := (\<lambda>path. Some ''mkdir : no such file or directory'')\<rparr>"

definition sample_env_readonly :: env where
  "sample_env_readonly =
     sample_env_mkdir_fails\<lparr>WriteFile_error := (\<lambda>path. Some ''read-only file system'')\<rparr>"

definition sample_get_bytes :: bytes where
  "sample_get_bytes = map of_char ''GET /status''"

definition sample_get :: request where
  "sample_get = \<lparr>Method = ''GET'', URL = ''/status'', Header = Map.empty, Body = []\<rparr>"

definition sample_auth_get :: request where
  "sample_auth_get = sample_get\<lparr>request.Header := [''Authorization'' \<mapsto> [''Bearer X'']]\<rparr>"

definition delAuthorization :: "request \<Rightarrow> request" where
  "delAuthorization r = r\<lparr>request.Header := Del (request.Header r) ''Authorization''\<rparr>"

definition delSetCookie :: "response \<Rightarrow> response" where
  "delSetCookie r = r\<lparr>response.Header := Del (response.Header r) ''Set-Cookie''\<rparr>"

definition sample_request_filter :: Filters where
  "sample_request_filter = \<lparr>RequestFilter = Some delAuthorization, ResponseFilter = None\<rparr>"

definition sample_response_filter :: Filters where
  "sample_response_filter = \<lparr>RequestFilter = None, ResponseFilter = Some delSetCookie\<rparr>"

definition empty_world :: world where
  "empty_world = \<lparr>files = [], calls = []\<rparr>"

text \<open>A store with a fixture kept under a label, and one with a fixture in a sub-directory.\<close>

definition nested_store :: fsys where
  "nested_store =
     [(''old/sKBBte7Z.res.txt'', 201 # sample_ok), (''sKBBte7Z.res.txt'', 200 # sample_ok)]"

definition labelled_world :: world where
  "labelled_world = \<lparr>files = [(''status-sKBBte7Z.res.txt'', [])], calls = []\<rparr>"

section \<open>Properties\<close>

subsection \<open>The hash on known inputs\<close>

text \<open>The digests of the empty string, of \<^verbatim>\<open>abc\<close> and of a two-block input, encoded.\<close>

lemma md5_empty: "EncodeToString (md5_Sum []) = ''1B2M2Y8AsgTpgAmY7PhCfg==''"
  by code_simp

lemma md5_abc: "EncodeToString (md5_Sum (map of_char ''abc'')) = ''kAFQmDzST7DWlj99KOF_cg==''"
  by code_simp

lemma md5_two_blocks:
  "EncodeToString (md5_Sum (replicate 64 (of_char CHR ''a''))) = ''AUhC1IC1cUlaSgNjeT9zZw==''"
  by code_simp

lemma buildName_sample:
  "buildName sample_get_bytes = (''sKBBte7Z.req.txt'', ''sKBBte7Z.res.txt'')"
  by code_simp

subsection \<open>File names\<close>

lemma md5_Sum_shape:
  "\<exists>a b' c d. md5_Sum b = put32 a @ put32 b' @ put32 c @ put32 d"
  by (simp add: md5_Sum_def Let_def split: prod.split) blast

lemma encode6_in_alphabet: "encode6 v \<in> set encodeURL"
proof -
  have "v AND 0x3F \<le> 0x3F"
    by (rule word_and_le1)
  then have "unat (v AND 0x3F) \<le> unat (0x3F :: 32 word)"
    by (simp only: word_le_nat_alt)
  then have "unat (v AND 0x3F) < length encodeURL"
    by (simp add: encodeURL_def)
  then show ?thesis
    unfolding encode6_def by (rule nth_mem)
qed

lemma EncodeToString_md5_length: "length (EncodeToString (md5_Sum b)) = 24"
proof -
  obtain a b' c d where "md5_Sum b = put32 a @ put32 b' @ put32 c @ put32 d"
    using md5_Sum_shape by blast
  then show ?thesis
    by (simp add: put32_def Let_def)
qed

lemma hash_prefix:
  "\<exists>p. take 8 (EncodeToString (md5_Sum b)) = p \<and> length p = 8 \<and> set p \<subseteq> set encodeURL"
proof -
  obtain a b' c d where "md5_Sum b = put32 a @ put32 b' @ put32 c @ put32 d"
    using md5_Sum_shape by blast
  then show ?thesis
    by (simp add: put32_def Let_def encode6_in_alphabet)
qed

lemma buildName_req_neq_res: "fst (buildName b) \<noteq> snd (buildName b)"
  by (simp add: buildName_def Let_def)

lemma reqname_not_suffix: "\<not> suffix (snd (buildName b)) (fst (buildName b))"
proof
  assume "suffix (snd (buildName b)) (fst (buildName b))"
  moreover have "length (snd (buildName b)) = length (fst (buildName b))"
    by (simp add: buildName_def Let_def)
  ultimately have "snd (buildName b) = fst (buildName b)"
    by (auto simp: suffix_def)
  then show False using buildName_req_neq_res [of b] by simp
qed

lemma resname_chars: "set (snd (buildName b)) \<subseteq> set encodeURL \<union> set ''.res.txt''"
  using hash_prefix [of b] by (auto simp: buildName_def Let_def)

lemma name_alphabet:
  "c \<in> set encodeURL \<union> set ''.res.txt'' \<Longrightarrow>
     c \<noteq> CHR ''*'' \<and> c \<noteq> CHR ''?'' \<and> c \<noteq> CHR ''['' \<and> c \<noteq> CHR 0x5C \<and> c \<noteq> CHR ''/''"
  by (auto simp: encodeURL_def)

lemma resname_no_meta:
  "CHR ''*'' \<notin> set (snd (buildName b))" "CHR ''?'' \<notin> set (snd (buildName b))"
  "CHR ''['' \<notin> set (snd (buildName b))" "CHR 0x5C \<notin> set (snd (buildName b))"
  "CHR ''/'' \<notin> set (snd (buildName b))"
  using resname_chars [of b] name_alphabet by blast+

text \<open>
  C2. For every byte string \<open>b\<close>, \<open>buildName b\<close> is a pair of names with one common
  prefix of 8 characters of the URL-safe alphabet, taken from the encoded MD5 digest of
  \<open>b\<close>; the first name ends in \<^verbatim>\<open>.req.txt\<close>, the second in \<^verbatim>\<open>.res.txt\<close>. The names
  depend on nothing but \<open>b\<close> (\<open>buildName\<close> is a function of \<open>b\<close> alone), so requests
  with the same serialized bytes get the same pair of names.
\<close>

theorem buildName_names:
  "\<exists>p. length p = 8 \<and> set p \<subseteq> set encodeURL
       \<and> p = take 8 (EncodeToString (md5_Sum b))
       \<and> buildName b = (p @ ''.req.txt'', p @ ''.res.txt'')"
  using hash_prefix [of b] by (simp add: buildName_def Let_def)

subsection \<open>Matching file names\<close>

lemma Match_literal:
  "CHR ''*'' \<notin> set p \<Longrightarrow> CHR ''?'' \<notin> set p \<Longrightarrow> Match p n = (p = n)"
  by (induction p n rule: Match.induct) auto

lemma Match_star_suffix:
  assumes "CHR ''*'' \<notin> set p" "CHR ''?'' \<notin> set p"
  shows "Match (CHR ''*'' # p) n \<Longrightarrow> suffix p n"
proof (induction n)
  case Nil
  then show ?case using assms by (simp add: Match_literal)
next
  case (Cons x n)
  then show ?case using assms by (auto simp: Match_literal suffix_ConsI)
qed

lemma suffix_Match_star:
  assumes "CHR ''*'' \<notin> set p" "CHR ''?'' \<notin> set p"
  shows "suffix p n \<Longrightarrow> CHR ''/'' \<notin> set n \<Longrightarrow> Match (CHR ''*'' # p) n"
proof (induction n)
  case Nil
  then show ?case by simp
next
  case (Cons x n)
  show ?case
  proof (cases "p = x # n")
    case True
    then show ?thesis using assms by (auto simp: Match_literal)
  next
    case False
    with Cons.prems have "suffix p n" by (simp add: suffix_Cons)
    with Cons show ?thesis by auto
  qed
qed

text \<open>
  The pattern that \<open>ReplayFS\<close> builds is within the modelled fragment, and it selects
  the names that end with the response file name.
\<close>

lemma Glob_resname:
  "Glob fsys (CHR ''*'' # snd (buildName b)) =
     Inr (filter (Match (CHR ''*'' # snd (buildName b))) (ReadDir fsys))"
  by (simp add: Glob_def resname_no_meta)

lemma Match_resname_suffix:
  "Match (CHR ''*'' # snd (buildName b)) n \<Longrightarrow> suffix (snd (buildName b)) n"
  using Match_star_suffix [OF resname_no_meta(1,2)] .

lemma Match_resname_iff:
  "CHR ''/'' \<notin> set n \<Longrightarrow>
     Match (CHR ''*'' # snd (buildName b)) n = suffix (snd (buildName b)) n"
  using Match_star_suffix [OF resname_no_meta(1,2), of b n]
        suffix_Match_star [OF resname_no_meta(1,2), of b n]
  by auto

lemma two_matches:
  assumes "n1 \<in> set ns" "n2 \<in> set ns" "n1 \<noteq> n2" "P n1" "P n2"
  shows "1 < length (filter P ns)"
proof -
  have "{n1, n2} \<subseteq> set (filter P ns)" using assms by simp
  then have "card {n1, n2} \<le> card (set (filter P ns))"
    by (intro card_mono) simp_all
  also have "\<dots> \<le> length (filter P ns)" by (rule card_length)
  finally show ?thesis using assms(3) by simp
qed

lemma filter_only:
  assumes "distinct xs" "x \<in> set xs" "\<And>y. y \<in> set xs \<Longrightarrow> P y = (y = x)"
  shows "filter P xs = [x]"
  using assms
proof (induction xs)
  case Nil
  then show ?case by simp
next
  case (Cons a xs)
  show ?case
  proof (cases "a = x")
    case True
    with Cons.prems have "filter P xs = []"
      by (auto simp: filter_empty_conv)
    with True Cons.prems(3) show ?thesis by simp
  next
    case False
    with Cons show ?thesis by auto
  qed
qed

text \<open>Entries of the root directory.\<close>

lemma set_ReadDir:
  "set (ReadDir fsys) = takeWhile (\<lambda>c. c \<noteq> CHR ''/'') ` fst ` set fsys"
  by (force simp: ReadDir_def)

lemma ReadDir_no_slash: "n \<in> set (ReadDir fsys) \<Longrightarrow> CHR ''/'' \<notin> set n"
  by (auto simp: set_ReadDir dest: set_takeWhileD)

lemma distinct_ReadDir: "distinct (ReadDir fsys)"
  by (simp add: ReadDir_def)

lemma set_ReadDir_update:
  assumes "CHR ''/'' \<notin> set k"
  shows "set (ReadDir (AList.update k v al)) = insert k (set (ReadDir al))"
proof -
  have tk: "takeWhile (\<lambda>c. c \<noteq> CHR ''/'') k = k"
    using assms by (auto simp: takeWhile_eq_all_conv)
  show ?thesis
    by (simp add: set_ReadDir dom_update tk)
qed

lemma reqname_no_slash: "CHR ''/'' \<notin> set (fst (buildName b))"
proof -
  have "set (fst (buildName b)) \<subseteq> set encodeURL \<union> set ''.req.txt''"
    using hash_prefix [of b] by (auto simp: buildName_def Let_def)
  then show ?thesis
    by (auto simp: encodeURL_def)
qed

lemma errors_Is_refl: "errors_Is e e"
  by (cases e) simp_all

subsection \<open>The sample environment at work\<close>

lemma sample_dump_get: "sample_DumpRequest sample_get = Inr sample_get_bytes"
  by (simp add: sample_DumpRequest_def sample_get_def sample_get_bytes_def)

lemma sample_dump_res: "sample_DumpResponse sample_res = Inr (200 # sample_ok)"
  by (simp add: sample_DumpResponse_def sample_res_def)

lemma sample_read_res:
  "sample_ReadResponse (200 # sample_ok) req = Inr (sample_res\<lparr>Request := Some req\<rparr>)"
  by (simp add: sample_ReadResponse_def sample_res_def)

lemma sample_read_length:
  "sample_ReadResponse_length (200 # sample_ok) req =
     Inr (sample_res\<lparr>response.Header := [''Content-Length'' \<mapsto> [''2'']], Request := Some req\<rparr>)"
  by (simp add: sample_ReadResponse_length_def sample_res_def sample_ok_def)

lemma sample_del_auth: "delAuthorization sample_auth_get = sample_get"
  by (simp add: delAuthorization_def sample_auth_get_def sample_get_def Del_def)

lemma sample_del_cookie: "delSetCookie sample_cookie_res = sample_res"
  by (simp add: delSetCookie_def sample_cookie_res_def sample_res_def Del_def)

lemmas sample_simps =
  sample_env_def sample_dump_get sample_dump_res sample_read_res buildName_sample
  sample_rt_def empty_world_def

lemmas Record_simps =
  Record_def Let_def applyRequestFilter_def applyResponseFilter_def WriteFile_def

lemmas ReplayFS_simps =
  ReplayFS_def Let_def Glob_def ReadDir_def ReadFile_def

lemma sample_DumpRequest_get: "DumpRequest sample_env sample_get = Inr sample_get_bytes"
  by (simp add: sample_simps)

text \<open>A recording without filters into the empty store.\<close>

lemma Record_sample:
  "Record sample_env (Some sample_rt) ''fixtures'' None sample_get empty_world =
     (Inr sample_res,
      \<lparr>files = [(''sKBBte7Z.req.txt'', sample_get_bytes),
                (''sKBBte7Z.res.txt'', 200 # sample_ok)],
       calls = [sample_get]\<rparr>)"
  by (simp add: Record_simps sample_simps)

text \<open>A recording through a request filter that deletes \<^verbatim>\<open>Authorization\<close>.\<close>

lemma Record_sample_request_filter:
  "Record sample_env (Some sample_rt) ''fixtures'' (Some sample_request_filter)
      sample_auth_get empty_world =
     (Inr sample_res,
      \<lparr>files = [(''sKBBte7Z.req.txt'', sample_get_bytes),
                (''sKBBte7Z.res.txt'', 200 # sample_ok)],
       calls = [sample_auth_get]\<rparr>)"
  by (simp add: Record_simps sample_simps sample_request_filter_def sample_del_auth)
     (simp add: sample_auth_get_def sample_get_def)

text \<open>A recording through a response filter that deletes \<^verbatim>\<open>Set-Cookie\<close>.\<close>

lemma Record_sample_response_filter:
  "Record sample_env (Some sample_cookie_rt) ''fixtures'' (Some sample_response_filter)
      sample_get empty_world =
     (Inr sample_res,
      \<lparr>files = [(''sKBBte7Z.req.txt'', sample_get_bytes),
                (''sKBBte7Z.res.txt'', 200 # sample_ok)],
       calls = [sample_get]\<rparr>)"
  by (simp add: Record_simps sample_simps sample_response_filter_def sample_cookie_rt_def
        sample_del_cookie)

subsection \<open>ReplayFS\<close>

text \<open>
  C3, as amended. For every request and every store whose root directory has two
  different entries whose names end with the response file name derived from the
  request, the round tripper of \<open>ReplayFS\<close> fails with the "ambiguous response" error,
  wrapped, and returns no response. Files in sub-directories are not searched.
\<close>

theorem ReplayFS_ambiguous:
  assumes dump: "DumpRequest env req = Inr b"
      and n1: "n1 \<in> set (ReadDir fsys)" "suffix (snd (buildName b)) n1"
      and n2: "n2 \<in> set (ReadDir fsys)" "suffix (snd (buildName b)) n2"
      and neq: "n1 \<noteq> n2"
  shows "ReplayFS env fsys req =
           Inl (Errorf_w ''problem while replaying transport: ''
                 (Errorf (''ambiguous response: multiple replay files match ''
                    @ quote (''*'' @ snd (buildName b)))) [])
         \<and> (\<nexists>res. ReplayFS env fsys req = Inr res)"
proof -
  let ?P = "Match (CHR ''*'' # snd (buildName b))"
  have "?P n1" "?P n2"
    using n1 n2 by (simp_all add: Match_resname_iff ReadDir_no_slash)
  with n1(1) n2(1) neq have "1 < length (filter ?P (ReadDir fsys))"
    by (rule two_matches)
  then have "ReplayFS env fsys req =
           Inl (Errorf_w ''problem while replaying transport: ''
                 (Errorf (''ambiguous response: multiple replay files match ''
                    @ quote (''*'' @ snd (buildName b)))) [])"
    using dump by (auto simp: ReplayFS_def Let_def Glob_resname replaying_def)
  then show ?thesis by simp
qed

text \<open>Two fixtures with different labels for one request.\<close>

theorem ReplayFS_ambiguous_witness:
  "ReplayFS sample_env
      [(''a-sKBBte7Z.res.txt'', [1]), (''b-sKBBte7Z.res.txt'', [2])] sample_get =
     Inl (Errorf_w ''problem while replaying transport: ''
           (Errorf (''ambiguous response: multiple replay files match ''
              @ quote ''*sKBBte7Z.res.txt'')) [])"
  using ReplayFS_ambiguous [of sample_env sample_get sample_get_bytes
      "''a-sKBBte7Z.res.txt''" "[(''a-sKBBte7Z.res.txt'', [1]), (''b-sKBBte7Z.res.txt'', [2])]"
      "''b-sKBBte7Z.res.txt''"]
  by (simp add: sample_DumpRequest_get buildName_sample suffix_to_prefix ReadDir_def)

text \<open>
  C3 as stated fails: in \<open>nested_store\<close> two stored file names end with the response
  file name, \<^verbatim>\<open>old/sKBBte7Z.res.txt\<close> and \<^verbatim>\<open>sKBBte7Z.res.txt\<close>. The pattern is matched
  against the entries of the root directory only, which are \<^verbatim>\<open>old\<close> and
  \<^verbatim>\<open>sKBBte7Z.res.txt\<close>, so there is one match and its response is served.
\<close>

theorem ReplayFS_ambiguous_counterexample:
  "map fst nested_store = [''old/sKBBte7Z.res.txt'', ''sKBBte7Z.res.txt'']
   \<and> suffix (snd (buildName sample_get_bytes)) ''old/sKBBte7Z.res.txt''
   \<and> suffix (snd (buildName sample_get_bytes)) ''sKBBte7Z.res.txt''
   \<and> DumpRequest sample_env sample_get = Inr sample_get_bytes
   \<and> ReplayFS sample_env nested_store sample_get = Inr (sample_res\<lparr>Request := Some sample_get\<rparr>)"
  by (simp add: nested_store_def ReplayFS_simps sample_simps suffix_to_prefix)



text \<open>
  C9. The round tripper of \<open>ReplayFS\<close> is a function of the codec, the store and the
  request: it has no transport and no world to act on, and its result is the same
  whatever the default transport of the environment is. For two requests with the same
  serialized bytes against one store, either both calls fail with the same error, or one
  fixture is read and each result is what \<^verbatim>\<open>http.ReadResponse\<close> makes of these same
  bytes. \<^verbatim>\<open>http.ReadResponse\<close> reads only the method of the request it is given, which
  is part of the serialized bytes, and attaches the request to the response; for a
  reader that treats the two requests alike in this way, the two calls fail with the
  same error or return equivalent responses.
\<close>

theorem ReplayFS_offline_deterministic:
  assumes same: "DumpRequest env req1 = DumpRequest env req2"
  shows "ReplayFS (env\<lparr>DefaultTransport := t\<rparr>) fsys req1 = ReplayFS env fsys req1
       \<and> ((\<exists>e. ReplayFS env fsys req1 = Inl e \<and> ReplayFS env fsys req2 = Inl e)
          \<or> (\<exists>name b. ReadFile fsys name = Inr b
                \<and> ReplayFS env fsys req1 =
                    (case ReadResponse env b req1 of
                       Inl err \<Rightarrow> Inl (Errorf_w ''problem while replaying transport: '' (Lib err) [])
                     | Inr res \<Rightarrow> Inr res)
                \<and> ReplayFS env fsys req2 =
                    (case ReadResponse env b req2 of
                       Inl err \<Rightarrow> Inl (Errorf_w ''problem while replaying transport: '' (Lib err) [])
                     | Inr res \<Rightarrow> Inr res)))
       \<and> ((\<forall>b. rel_sum (=) equivalent (ReadResponse env b req1) (ReadResponse env b req2))
            \<longrightarrow> rel_sum (=) equivalent (ReplayFS env fsys req1) (ReplayFS env fsys req2))"
proof -
  let ?parse = "\<lambda>b req. case ReadResponse env b req of
                       Inl err \<Rightarrow> Inl (Errorf_w ''problem while replaying transport: '' (Lib err) [])
                     | Inr res \<Rightarrow> Inr res"
  have indep: "ReplayFS (env\<lparr>DefaultTransport := t\<rparr>) fsys req1 = ReplayFS env fsys req1"
    by (simp add: ReplayFS_def Let_def split: sum.splits)
  have cases: "(\<exists>e. ReplayFS env fsys req1 = Inl e \<and> ReplayFS env fsys req2 = Inl e)
          \<or> (\<exists>name b. ReadFile fsys name = Inr b
                \<and> ReplayFS env fsys req1 = ?parse b req1
                \<and> ReplayFS env fsys req2 = ?parse b req2)"
  proof (cases "DumpRequest env req2")
    case (Inl err)
    with same show ?thesis by (simp add: ReplayFS_def)
  next
    case (Inr b)
    let ?ms = "filter (Match (CHR ''*'' # snd (buildName b))) (ReadDir fsys)"
    show ?thesis
    proof (cases "length ?ms = 0 \<or> length ?ms > 1")
      case True
      with same Inr show ?thesis
        by (auto simp: ReplayFS_def Let_def Glob_resname)
    next
      case False
      show ?thesis
      proof (cases "ReadFile fsys (?ms ! 0)")
        case (Inl err)
        with same Inr False show ?thesis
          by (auto simp: ReplayFS_def Let_def Glob_resname)
      next
        case r: (Inr b2)
        with same Inr False have
          "ReplayFS env fsys req1 = ?parse b2 req1" "ReplayFS env fsys req2 = ?parse b2 req2"
          by (auto simp: ReplayFS_def Let_def Glob_resname replaying_def split: sum.splits)
        with r show ?thesis by blast
      qed
    qed
  qed
  have rel: "rel_sum (=) equivalent (ReplayFS env fsys req1) (ReplayFS env fsys req2)"
    if codec: "\<forall>b. rel_sum (=) equivalent (ReadResponse env b req1) (ReadResponse env b req2)"
  proof -
    have p: "rel_sum (=) equivalent (?parse b req1) (?parse b req2)" for b
      using codec [rule_format, of b]
      by (cases "ReadResponse env b req1"; cases "ReadResponse env b req2") simp_all
    from cases show ?thesis
    proof
      assume "\<exists>e. ReplayFS env fsys req1 = Inl e \<and> ReplayFS env fsys req2 = Inl e"
      then show ?thesis by auto
    next
      assume "\<exists>name b. ReadFile fsys name = Inr b
                \<and> ReplayFS env fsys req1 = ?parse b req1
                \<and> ReplayFS env fsys req2 = ?parse b req2"
      then obtain b where "ReplayFS env fsys req1 = ?parse b req1"
          "ReplayFS env fsys req2 = ?parse b req2"
        by blast
      with p [of b] show ?thesis by simp
    qed
  qed
  from indep cases rel show ?thesis by blast
qed

text \<open>
  Two requests that differ in a header the sample codec does not write, against the
  store of \<open>Record_sample\<close>, with a default transport that would fail.
\<close>

theorem ReplayFS_offline_deterministic_witness:
  "ReplayFS (sample_env\<lparr>DefaultTransport := sample_failing_rt\<rparr>)
       [(''sKBBte7Z.req.txt'', sample_get_bytes), (''sKBBte7Z.res.txt'', 200 # sample_ok)]
       sample_get
     = Inr (sample_res\<lparr>Request := Some sample_get\<rparr>)
   \<and> ReplayFS sample_env
       [(''sKBBte7Z.req.txt'', sample_get_bytes), (''sKBBte7Z.res.txt'', 200 # sample_ok)]
       (sample_get\<lparr>request.Header := [''Accept'' \<mapsto> [''text/plain'']]\<rparr>)
     = Inr (sample_res\<lparr>Request :=
              Some (sample_get\<lparr>request.Header := [''Accept'' \<mapsto> [''text/plain'']]\<rparr>)\<rparr>)
   \<and> rel_sum (=) equivalent
       (ReplayFS sample_env
          [(''sKBBte7Z.req.txt'', sample_get_bytes), (''sKBBte7Z.res.txt'', 200 # sample_ok)]
          sample_get)
       (ReplayFS sample_env
          [(''sKBBte7Z.req.txt'', sample_get_bytes), (''sKBBte7Z.res.txt'', 200 # sample_ok)]
          (sample_get\<lparr>request.Header := [''Accept'' \<mapsto> [''text/plain'']]\<rparr>))"
proof -
  let ?req2 = "sample_get\<lparr>request.Header := [''Accept'' \<mapsto> [''text/plain'']]\<rparr>"
  let ?fs = "[(''sKBBte7Z.req.txt'', sample_get_bytes), (''sKBBte7Z.res.txt'', 200 # sample_ok)]"
  have d2: "sample_DumpRequest ?req2 = Inr sample_get_bytes"
    by (simp add: sample_DumpRequest_def sample_get_def sample_get_bytes_def)
  then have 1: "DumpRequest sample_env sample_get = DumpRequest sample_env ?req2"
    by (simp add: sample_simps)
  have 2: "ReplayFS sample_env ?fs sample_get = Inr (sample_res\<lparr>Request := Some sample_get\<rparr>)"
    by (simp add: ReplayFS_simps sample_simps)
  have 3: "ReplayFS sample_env ?fs ?req2 = Inr (sample_res\<lparr>Request := Some ?req2\<rparr>)"
    by (simp add: ReplayFS_simps sample_simps d2)
  have 4: "\<forall>b. rel_sum (=) equivalent
             (ReadResponse sample_env b sample_get) (ReadResponse sample_env b ?req2)"
    by (simp add: sample_env_def sample_ReadResponse_def equivalent_def split: list.split)
  from ReplayFS_offline_deterministic [OF 1, of sample_failing_rt ?fs] 4
  have "ReplayFS (sample_env\<lparr>DefaultTransport := sample_failing_rt\<rparr>) ?fs sample_get
          = ReplayFS sample_env ?fs sample_get"
    and "rel_sum (=) equivalent (ReplayFS sample_env ?fs sample_get) (ReplayFS sample_env ?fs ?req2)"
    by blast+
  with 2 3 show ?thesis by simp
qed

subsection \<open>Record\<close>

text \<open>
  C10. For every base path and filters value, the round tripper that \<open>Record\<close> returns
  for a nil transport is the one it returns for the default transport, and it does use
  the default transport as the live transport: once the request is serialized and its
  fixture written, the default transport has been called with the request, its error
  comes back wrapped, and its response (after the response filter) is what is
  serialized, stored and returned.
\<close>

theorem Record_nil_transport:
  "Record env None basepath f = Record env (Some (DefaultTransport env)) basepath f
   \<and> (\<forall>req w b.
         DumpRequest env (applyRequestFilter f req) = Inr b
         \<and> WriteFile_error env (Join basepath (fst (buildName b))) = None
       \<longrightarrow>
         calls (snd (Record env None basepath f req w))
           = calls w @ [req\<lparr>request.Body := request.Body (applyRequestFilter f req)\<rparr>]
         \<and> (\<forall>e. DefaultTransport env
                   (req\<lparr>request.Body := request.Body (applyRequestFilter f req)\<rparr>) = Inl e
               \<longrightarrow> fst (Record env None basepath f req w)
                     = Inl (Errorf_w ''problem while recording transport: '' e []))
         \<and> (\<forall>res b2. DefaultTransport env
                   (req\<lparr>request.Body := request.Body (applyRequestFilter f req)\<rparr>) = Inr res
               \<and> DumpResponse env (applyResponseFilter f res) = Inr b2
               \<and> WriteFile_error env (Join basepath (snd (buildName b))) = None
               \<longrightarrow> Record env None basepath f req w
                     = (Inr (applyResponseFilter f res),
                        w\<lparr>files := AList.update (snd (buildName b)) b2
                                     (AList.update (fst (buildName b)) b (files w)),
                          calls := calls w
                            @ [req\<lparr>request.Body := request.Body (applyRequestFilter f req)\<rparr>]\<rparr>)))"
proof
  show "Record env None basepath f = Record env (Some (DefaultTransport env)) basepath f"
    by (rule ext)+ (simp add: Record_def)
next
  show "\<forall>req w b.
         DumpRequest env (applyRequestFilter f req) = Inr b
         \<and> WriteFile_error env (Join basepath (fst (buildName b))) = None
       \<longrightarrow>
         calls (snd (Record env None basepath f req w))
           = calls w @ [req\<lparr>request.Body := request.Body (applyRequestFilter f req)\<rparr>]
         \<and> (\<forall>e. DefaultTransport env
                   (req\<lparr>request.Body := request.Body (applyRequestFilter f req)\<rparr>) = Inl e
               \<longrightarrow> fst (Record env None basepath f req w)
                     = Inl (Errorf_w ''problem while recording transport: '' e []))
         \<and> (\<forall>res b2. DefaultTransport env
                   (req\<lparr>request.Body := request.Body (applyRequestFilter f req)\<rparr>) = Inr res
               \<and> DumpResponse env (applyResponseFilter f res) = Inr b2
               \<and> WriteFile_error env (Join basepath (snd (buildName b))) = None
               \<longrightarrow> Record env None basepath f req w
                     = (Inr (applyResponseFilter f res),
                        w\<lparr>files := AList.update (snd (buildName b)) b2
                                     (AList.update (fst (buildName b)) b (files w)),
                          calls := calls w
                            @ [req\<lparr>request.Body := request.Body (applyRequestFilter f req)\<rparr>]\<rparr>))"
    by (auto simp: Record_def Let_def WriteFile_def case_prod_beta recording_def
             split: sum.splits option.splits)
qed

text \<open>
  With the sample transport as the default transport and no transport given, the
  recording is that of \<open>Record_sample\<close>; with a default transport that fails, its error
  comes back.
\<close>

theorem Record_nil_transport_witness:
  "Record sample_env None ''fixtures'' None sample_get empty_world =
     (Inr sample_res,
      \<lparr>files = [(''sKBBte7Z.req.txt'', sample_get_bytes),
                (''sKBBte7Z.res.txt'', 200 # sample_ok)],
       calls = [sample_get]\<rparr>)
   \<and> fst (Record (sample_env\<lparr>DefaultTransport := sample_failing_rt\<rparr>) None ''fixtures'' None
            sample_get empty_world) =
       Inl (Errorf_w ''problem while recording transport: '' (Lib ''connection refused'') [])"
proof -
  let ?env2 = "sample_env\<lparr>DefaultTransport := sample_failing_rt\<rparr>"
  have 1: "DumpRequest sample_env (applyRequestFilter None sample_get) = Inr sample_get_bytes"
    by (simp add: applyRequestFilter_def sample_DumpRequest_get)
  have 2: "WriteFile_error sample_env (Join ''fixtures'' (fst (buildName sample_get_bytes))) = None"
    by (simp add: sample_env_def)
  have 3: "DefaultTransport sample_env
             (sample_get\<lparr>request.Body := request.Body (applyRequestFilter None sample_get)\<rparr>)
           = Inr sample_res"
    by (simp add: sample_env_def sample_rt_def)
  have 4: "DumpResponse sample_env (applyResponseFilter None sample_res) = Inr (200 # sample_ok)"
    by (simp add: applyResponseFilter_def sample_simps)
  have 5: "WriteFile_error sample_env (Join ''fixtures'' (snd (buildName sample_get_bytes))) = None"
    by (simp add: sample_env_def)
  have d1: "DumpRequest ?env2 (applyRequestFilter None sample_get) = Inr sample_get_bytes"
    by (simp add: applyRequestFilter_def sample_simps)
  have d2: "WriteFile_error ?env2 (Join ''fixtures'' (fst (buildName sample_get_bytes))) = None"
    by (simp add: sample_env_def)
  have d3: "DefaultTransport ?env2
             (sample_get\<lparr>request.Body := request.Body (applyRequestFilter None sample_get)\<rparr>)
           = Inl (Lib ''connection refused'')"
    by (simp add: sample_failing_rt_def)
  from Record_nil_transport [of sample_env "''fixtures''" None] 1 2 3 4 5
  have a: "Record sample_env None ''fixtures'' None sample_get empty_world
           = (Inr (applyResponseFilter None sample_res),
              empty_world\<lparr>files := AList.update (snd (buildName sample_get_bytes)) (200 # sample_ok)
                              (AList.update (fst (buildName sample_get_bytes)) sample_get_bytes
                                 (files empty_world)),
                calls := calls empty_world
                  @ [sample_get\<lparr>request.Body := request.Body (applyRequestFilter None sample_get)\<rparr>]\<rparr>)"
    by blast
  from Record_nil_transport [of ?env2 "''fixtures''" None] d1 d2 d3
  have b: "fst (Record ?env2 None ''fixtures'' None sample_get empty_world)
           = Inl (Errorf_w ''problem while recording transport: '' (Lib ''connection refused'') [])"
    by blast
  from a b show ?thesis
    by (simp add: applyResponseFilter_def applyRequestFilter_def buildName_sample empty_world_def)
qed

text \<open>What a successful call has done.\<close>

lemma Record_success:
  assumes "Record env rt basepath f req w = (Inr res, w')"
  shows "\<exists>b res0 b2.
           DumpRequest env (applyRequestFilter f req) = Inr b
         \<and> (case rt of None \<Rightarrow> DefaultTransport env | Some t \<Rightarrow> t)
              (req\<lparr>request.Body := request.Body (applyRequestFilter f req)\<rparr>) = Inr res0
         \<and> res = applyResponseFilter f res0
         \<and> DumpResponse env res = Inr b2
         \<and> w' = w\<lparr>files := AList.update (snd (buildName b)) b2
                              (AList.update (fst (buildName b)) b (files w)),
                    calls := calls w @ [req\<lparr>request.Body := request.Body (applyRequestFilter f req)\<rparr>]\<rparr>"
  using assms
  by (auto simp: Record_def Let_def WriteFile_def case_prod_beta
           split: sum.splits option.splits)

text \<open>What every call has done once the request fixture is written.\<close>

lemma Record_after_write:
  assumes dump: "DumpRequest env (applyRequestFilter f req) = Inr b"
      and wr: "WriteFile_error env (Join basepath (fst (buildName b))) = None"
  shows "\<exists>r al. Record env rt basepath f req w =
           (r, \<lparr>files = al,
                calls = calls w @ [req\<lparr>request.Body := request.Body (applyRequestFilter f req)\<rparr>]\<rparr>)
         \<and> (al = AList.update (fst (buildName b)) b (files w)
            \<or> (\<exists>b2. al = AList.update (snd (buildName b)) b2
                          (AList.update (fst (buildName b)) b (files w))))"
  using assms
  by (cases w) (auto simp: Record_def Let_def WriteFile_def case_prod_beta
           split: sum.splits option.splits)

text \<open>
  C5. For every request that carries an \<^verbatim>\<open>Authorization\<close> header, recorded through a
  request filter \<open>g\<close> that deletes it: once the request is serialized and its fixture
  written, the request fixture is the serialization of a request without
  \<^verbatim>\<open>Authorization\<close> header, and the request handed to the underlying transport has the
  headers of the caller's request, \<^verbatim>\<open>Authorization\<close> among them.
\<close>

theorem Record_request_filter_Authorization:
  assumes auth: "request.Header req ''Authorization'' = Some v"
      and flt: "RequestFilter fl = Some g"
      and del: "request.Header (g req) ''Authorization'' = None"
      and dump: "DumpRequest env (g req) = Inr b"
      and wr: "WriteFile_error env (Join basepath (fst (buildName b))) = None"
      and run: "Record env rt basepath (Some fl) req w = (r, w')"
  shows "map_of (files w') (fst (buildName b)) = Some b
       \<and> (\<exists>d. DumpRequest env d = Inr b \<and> request.Header d ''Authorization'' = None)
       \<and> (\<exists>sent. calls w' = calls w @ [sent]
              \<and> request.Header sent = request.Header req
              \<and> request.Header sent ''Authorization'' = Some v)"
proof -
  have f: "applyRequestFilter (Some fl) req = g req"
    using flt by (simp add: applyRequestFilter_def)
  from Record_after_write [of env "Some fl" req b basepath rt w] dump wr run f
  obtain al where
    w': "w' = \<lparr>files = al, calls = calls w @ [req\<lparr>request.Body := request.Body (g req)\<rparr>]\<rparr>"
    and al: "al = AList.update (fst (buildName b)) b (files w)
            \<or> (\<exists>b2. al = AList.update (snd (buildName b)) b2
                          (AList.update (fst (buildName b)) b (files w)))"
    by auto
  from al have "map_of al (fst (buildName b)) = Some b"
    using buildName_req_neq_res [of b] by (auto simp: update_conv')
  then show ?thesis
    using w' auth del dump by auto
qed

text \<open>
  \<^verbatim>\<open>GET /status\<close> with \<^verbatim>\<open>Authorization: Bearer X\<close>, in the world that
  \<open>Record_sample_request_filter\<close> computes.
\<close>

theorem Record_request_filter_Authorization_witness:
  "(case Record sample_env (Some sample_rt) ''fixtures'' (Some sample_request_filter)
           sample_auth_get empty_world of
      (r, w') \<Rightarrow>
        map_of (files w') ''sKBBte7Z.req.txt'' = Some sample_get_bytes
        \<and> calls w' = [sample_auth_get])
   \<and> DumpRequest sample_env sample_get = Inr sample_get_bytes
   \<and> request.Header sample_get ''Authorization'' = None
   \<and> request.Header sample_auth_get ''Authorization'' = Some [''Bearer X'']"
proof -
  have 1: "request.Header sample_auth_get ''Authorization'' = Some [''Bearer X'']"
    by (simp add: sample_auth_get_def)
  have 2: "RequestFilter sample_request_filter = Some delAuthorization"
    by (simp add: sample_request_filter_def)
  have 3: "request.Header (delAuthorization sample_auth_get) ''Authorization'' = None"
    by (simp add: sample_del_auth sample_get_def)
  have 4: "DumpRequest sample_env (delAuthorization sample_auth_get) = Inr sample_get_bytes"
    by (simp add: sample_del_auth sample_DumpRequest_get)
  have 5: "WriteFile_error sample_env (Join ''fixtures'' (fst (buildName sample_get_bytes))) = None"
    by (simp add: sample_env_def)
  show ?thesis
    using Record_request_filter_Authorization [OF 1 2 3 4 5 Record_sample_request_filter]
    by (simp add: Record_sample_request_filter buildName_sample sample_DumpRequest_get 1)
       (simp add: sample_get_def)
qed

text \<open>
  C6, as amended. For every recorded exchange with a response filter \<open>g\<close> installed,
  the filter is applied to the live response itself: the response returned to the caller
  is \<open>g\<close> of the response of the underlying transport, and the persisted response
  fixture is the serialization of that same filtered response.
\<close>

theorem Record_response_filter_in_place:
  assumes flt: "ResponseFilter fl = Some g"
      and run: "Record env rt basepath (Some fl) req w = (Inr r, w')"
  shows "\<exists>res b b2.
           (case rt of None \<Rightarrow> DefaultTransport env | Some t \<Rightarrow> t)
              (req\<lparr>request.Body := request.Body (applyRequestFilter (Some fl) req)\<rparr>) = Inr res
         \<and> r = g res
         \<and> DumpRequest env (applyRequestFilter (Some fl) req) = Inr b
         \<and> DumpResponse env (g res) = Inr b2
         \<and> map_of (files w') (snd (buildName b)) = Some b2"
proof -
  have f: "applyResponseFilter (Some fl) res = g res" for res
    using flt by (simp add: applyResponseFilter_def)
  from Record_success [OF run] show ?thesis
    by (auto simp: f update_conv')
qed

theorem Record_response_filter_in_place_witness:
  "\<exists>res b b2.
      sample_cookie_rt sample_get = Inr res
    \<and> sample_res = delSetCookie res
    \<and> DumpRequest sample_env sample_get = Inr b
    \<and> DumpResponse sample_env (delSetCookie res) = Inr b2
    \<and> map_of [(''sKBBte7Z.req.txt'', sample_get_bytes), (''sKBBte7Z.res.txt'', 200 # sample_ok)]
         (snd (buildName b)) = Some b2"
proof -
  have 1: "ResponseFilter sample_response_filter = Some delSetCookie"
    by (simp add: sample_response_filter_def)
  have 2: "applyRequestFilter (Some sample_response_filter) sample_get = sample_get"
    by (simp add: applyRequestFilter_def sample_response_filter_def)
  show ?thesis
    using Record_response_filter_in_place [OF 1 Record_sample_response_filter]
    by (simp add: 2)
qed

text \<open>
  C6 as stated fails: the underlying transport answers with a \<^verbatim>\<open>Set-Cookie\<close> header,
  the response filter deletes it, and the response that the caller gets has lost it.
\<close>

theorem Record_response_filter_counterexample:
  "sample_cookie_rt sample_get = Inr sample_cookie_res
   \<and> fst (Record sample_env (Some sample_cookie_rt) ''fixtures'' (Some sample_response_filter)
            sample_get empty_world) = Inr sample_res
   \<and> response.Header sample_cookie_res ''Set-Cookie'' = Some [''sid=1'']
   \<and> response.Header sample_res ''Set-Cookie'' = None"
  by (simp add: Record_sample_response_filter sample_cookie_rt_def sample_cookie_res_def
        sample_res_def)

text \<open>
  C7, as amended. For every call through the round tripper of \<open>Record\<close>, if creation
  of the store directory fails, the failure is discarded: the call does what it does when
  creation succeeds. If the request fixture then cannot be written, the call returns the
  wrapped write error with the world unchanged, so before any network activity.
\<close>

theorem Record_MkdirAll_discarded:
  assumes "MkdirAll env basepath = Some e"
  shows "Record env rt basepath f req w
           = Record (env\<lparr>MkdirAll := (\<lambda>path. None)\<rparr>) rt basepath f req w
       \<and> (\<forall>b e'. DumpRequest env (applyRequestFilter f req) = Inr b
               \<and> WriteFile_error env (Join basepath (fst (buildName b))) = Some e'
             \<longrightarrow> Record env rt basepath f req w = (Inl (recording (Lib e')), w))"
  by (auto simp: Record_def Let_def WriteFile_def case_prod_beta
        split: sum.splits option.splits)

theorem Record_MkdirAll_discarded_witness:
  "Record sample_env_readonly (Some sample_rt) [] None sample_get empty_world
     = Record (sample_env_readonly\<lparr>MkdirAll := (\<lambda>path. None)\<rparr>) (Some sample_rt) [] None
         sample_get empty_world
   \<and> Record sample_env_readonly (Some sample_rt) [] None sample_get empty_world
       = (Inl (recording (Lib ''read-only file system'')), empty_world)"
proof -
  have 1: "MkdirAll sample_env_readonly [] = Some ''mkdir : no such file or directory''"
    by (simp add: sample_env_readonly_def sample_env_mkdir_fails_def sample_env_def)
  have 2: "DumpRequest sample_env_readonly (applyRequestFilter None sample_get) = Inr sample_get_bytes"
    by (simp add: sample_env_readonly_def sample_env_mkdir_fails_def sample_simps
          applyRequestFilter_def)
  have 3: "WriteFile_error sample_env_readonly (Join [] (fst (buildName sample_get_bytes)))
             = Some ''read-only file system''"
    by (simp add: sample_env_readonly_def)
  show ?thesis
    using Record_MkdirAll_discarded [OF 1, of "Some sample_rt" None sample_get empty_world] 2 3
    by blast
qed

text \<open>
  C7 as stated fails: with the empty base path the directory cannot be created, and
  the call goes on, writes both fixtures and calls the transport.
\<close>

theorem Record_MkdirAll_counterexample:
  "MkdirAll sample_env_mkdir_fails [] = Some ''mkdir : no such file or directory''
   \<and> Record sample_env_mkdir_fails (Some sample_rt) [] None sample_get empty_world =
       (Inr sample_res,
        \<lparr>files = [(''sKBBte7Z.req.txt'', sample_get_bytes),
                  (''sKBBte7Z.res.txt'', 200 # sample_ok)],
         calls = [sample_get]\<rparr>)"
  by (simp add: Record_simps sample_simps sample_env_mkdir_fails_def)

text \<open>
  C8. For every call through the round tripper of \<open>Record\<close> in which the underlying
  transport returns an error \<open>e\<close>: the caller gets \<open>e\<close> wrapped in the "problem while
  recording transport" error, from which \<^verbatim>\<open>errors.Is\<close> finds \<open>e\<close> again; the transport has
  been called once; the request fixture is in the store, and nothing else in the store
  has changed; the entry under the response file name is what it was.
\<close>

theorem Record_transport_error:
  assumes dump: "DumpRequest env (applyRequestFilter f req) = Inr b"
      and wr: "WriteFile_error env (Join basepath (fst (buildName b))) = None"
      and rt: "(case rt of None \<Rightarrow> DefaultTransport env | Some t \<Rightarrow> t)
                 (req\<lparr>request.Body := request.Body (applyRequestFilter f req)\<rparr>) = Inl e"
      and run: "Record env rt basepath f req w = (r, w')"
  shows "r = Inl (Errorf_w ''problem while recording transport: '' e [])
       \<and> (\<exists>err. r = Inl err \<and> errors_Is err e)
       \<and> r = Inl (recording e)
       \<and> files w' = AList.update (fst (buildName b)) b (files w)
       \<and> map_of (files w') (fst (buildName b)) = Some b
       \<and> map_of (files w') (snd (buildName b)) = map_of (files w) (snd (buildName b))
       \<and> calls w' = calls w @ [req\<lparr>request.Body := request.Body (applyRequestFilter f req)\<rparr>]"
proof -
  have "Record env rt basepath f req w =
          (Inl (recording e),
           w\<lparr>files := AList.update (fst (buildName b)) b (files w),
             calls := calls w @ [req\<lparr>request.Body := request.Body (applyRequestFilter f req)\<rparr>]\<rparr>)"
    using dump wr rt
    by (simp add: Record_def Let_def WriteFile_def case_prod_beta)
  with run show ?thesis
    using buildName_req_neq_res [of b] errors_Is_refl [of e]
    by (auto simp: update_conv' recording_def)
qed

theorem Record_transport_error_witness:
  "Record sample_env (Some sample_failing_rt) ''fixtures'' None sample_get empty_world =
     (Inl (Errorf_w ''problem while recording transport: '' (Lib ''connection refused'') []),
      \<lparr>files = [(''sKBBte7Z.req.txt'', sample_get_bytes)], calls = [sample_get]\<rparr>)
   \<and> errors_Is (Errorf_w ''problem while recording transport: '' (Lib ''connection refused'') [])
        (Lib ''connection refused'')"
proof -
  have 1: "DumpRequest sample_env (applyRequestFilter None sample_get) = Inr sample_get_bytes"
    by (simp add: applyRequestFilter_def sample_DumpRequest_get)
  have 2: "WriteFile_error sample_env (Join ''fixtures'' (fst (buildName sample_get_bytes))) = None"
    by (simp add: sample_env_def)
  have 3: "(case Some sample_failing_rt of None \<Rightarrow> DefaultTransport sample_env | Some t \<Rightarrow> t)
             (sample_get\<lparr>request.Body := request.Body (applyRequestFilter None sample_get)\<rparr>)
           = Inl (Lib ''connection refused'')"
    by (simp add: sample_failing_rt_def)
  obtain r w' where
    run: "Record sample_env (Some sample_failing_rt) ''fixtures'' None sample_get empty_world = (r, w')"
    by (rule prod.exhaust)
  from Record_transport_error [OF 1 2 3 run] have
    "r = Inl (Errorf_w ''problem while recording transport: '' (Lib ''connection refused'') [])"
    "files w' = [(''sKBBte7Z.req.txt'', sample_get_bytes)]"
    "calls w' = [sample_get]"
    by (simp_all add: buildName_sample empty_world_def applyRequestFilter_def)
  then show ?thesis
    unfolding run by (cases w') simp
qed

subsection \<open>Recording, then replaying\<close>

text \<open>
  C1, as amended. For every request/response pair: if the pair is recorded through the
  round tripper of \<open>Record\<close>, with no filters installed, into a store whose root
  directory has no other entry whose name ends with the derived response file name, then
  replaying a request with the same serialized bytes through \<open>ReplayFS\<close> over the
  resulting store yields what \<^verbatim>\<open>http.ReadResponse\<close> parses from the bytes that
  \<^verbatim>\<open>httputil.DumpResponse\<close> wrote for the recorded response, the response of the live
  transport. The replayed response is equivalent in status, headers and body to the
  recorded one exactly when that parse is.
\<close>

theorem Record_then_ReplayFS:
  assumes nof: "case f of None \<Rightarrow> True
                | Some fl \<Rightarrow> RequestFilter fl = None \<and> ResponseFilter fl = None"
      and rec: "Record env rt basepath f req w = (Inr res, w')"
      and dump: "DumpRequest env req = Inr b"
      and same: "DumpRequest env req2 = Inr b"
      and uniq: "\<forall>n \<in> set (ReadDir (files w)).
                   suffix (snd (buildName b)) n \<longrightarrow> n = snd (buildName b)"
  shows "(case rt of None \<Rightarrow> DefaultTransport env | Some t \<Rightarrow> t) req = Inr res
       \<and> (\<exists>b2. DumpResponse env res = Inr b2
             \<and> ReadFile (files w') (snd (buildName b)) = Inr b2
             \<and> ReplayFS env (files w') req2 =
                 (case ReadResponse env b2 req2 of
                    Inl err \<Rightarrow> Inl (Errorf_w ''problem while replaying transport: '' (Lib err) [])
                  | Inr r' \<Rightarrow> Inr r')
             \<and> ((\<exists>r'. ReplayFS env (files w') req2 = Inr r' \<and> equivalent r' res)
                  = (\<exists>r'. ReadResponse env b2 req2 = Inr r' \<and> equivalent r' res)))"
proof -
  let ?req = "fst (buildName b)" and ?res = "snd (buildName b)"
  have f1: "applyRequestFilter f r = r" for r
    using nof by (cases f) (simp_all add: applyRequestFilter_def)
  have f2: "applyResponseFilter f r = r" for r
    using nof by (cases f) (simp_all add: applyResponseFilter_def)
  from Record_success [OF rec] dump obtain b2 where
    live: "(case rt of None \<Rightarrow> DefaultTransport env | Some t \<Rightarrow> t) req = Inr res" and
    b2: "DumpResponse env res = Inr b2" and
    w': "files w' = AList.update ?res b2 (AList.update ?req b (files w))"
    by (auto simp: f1 f2)
  have names: "set (ReadDir (files w')) = {?res, ?req} \<union> set (ReadDir (files w))"
    by (auto simp: w' set_ReadDir_update reqname_no_slash resname_no_meta)
  have m: "Match (CHR ''*'' # ?res) n = (n = ?res)" if "n \<in> set (ReadDir (files w'))" for n
  proof
    assume "Match (CHR ''*'' # ?res) n"
    then have "suffix ?res n" by (rule Match_resname_suffix)
    with that names uniq reqname_not_suffix [of b] show "n = ?res" by auto
  next
    assume "n = ?res"
    then show "Match (CHR ''*'' # ?res) n"
      by (simp add: Match_resname_iff resname_no_meta)
  qed
  have "filter (Match (CHR ''*'' # ?res)) (ReadDir (files w')) = [?res]"
    using distinct_ReadDir _ m by (rule filter_only) (simp add: names)
  moreover have rd: "ReadFile (files w') ?res = Inr b2"
    by (simp add: ReadFile_def w' update_conv')
  ultimately have replay: "ReplayFS env (files w') req2 =
                 (case ReadResponse env b2 req2 of
                    Inl err \<Rightarrow> Inl (Errorf_w ''problem while replaying transport: '' (Lib err) [])
                  | Inr r' \<Rightarrow> Inr r')"
    using same by (simp add: ReplayFS_def Let_def Glob_resname replaying_def split: sum.splits)
  then have "(\<exists>r'. ReplayFS env (files w') req2 = Inr r' \<and> equivalent r' res)
                  = (\<exists>r'. ReadResponse env b2 req2 = Inr r' \<and> equivalent r' res)"
    by (cases "ReadResponse env b2 req2") simp_all
  with live b2 rd replay show ?thesis by blast
qed

text \<open>The recording of \<open>Record_sample\<close>, replayed.\<close>

theorem Record_then_ReplayFS_witness:
  "ReplayFS sample_env
      [(''sKBBte7Z.req.txt'', sample_get_bytes),
       (''sKBBte7Z.res.txt'', 200 # sample_ok)] sample_get
     = Inr (sample_res\<lparr>Request := Some sample_get\<rparr>)
   \<and> equivalent (sample_res\<lparr>Request := Some sample_get\<rparr>) sample_res"
proof -
  have 1: "case None :: Filters option of None \<Rightarrow> True
           | Some fl \<Rightarrow> RequestFilter fl = None \<and> ResponseFilter fl = None"
    by simp
  have 2: "\<forall>n \<in> set (ReadDir (files empty_world)).
      suffix (snd (buildName sample_get_bytes)) n \<longrightarrow> n = snd (buildName sample_get_bytes)"
    by (simp add: empty_world_def ReadDir_def)
  from Record_then_ReplayFS [OF 1 Record_sample sample_DumpRequest_get sample_DumpRequest_get 2]
  obtain b2 where "DumpResponse sample_env sample_res = Inr b2"
    and "ReplayFS sample_env
           (files \<lparr>files = [(''sKBBte7Z.req.txt'', sample_get_bytes),
                            (''sKBBte7Z.res.txt'', 200 # sample_ok)],
                   calls = [sample_get]\<rparr>) sample_get =
           (case ReadResponse sample_env b2 sample_get of
              Inl err \<Rightarrow> Inl (Errorf_w ''problem while replaying transport: '' (Lib err) [])
            | Inr r' \<Rightarrow> Inr r')"
    by blast
  then show ?thesis
    by (auto simp: sample_simps equivalent_def)
qed

text \<open>
  C1 as stated fails, in two ways. First, the store already holds a labelled fixture
  for the request, \<^verbatim>\<open>status-sKBBte7Z.res.txt\<close>: the recording succeeds and adds
  \<^verbatim>\<open>sKBBte7Z.res.txt\<close>, and the replay over the resulting store finds two matches and
  fails. Second, into the empty store, with a reader that keeps the length of the body
  as a \<^verbatim>\<open>Content-Length\<close> header: the live response has no such header, the replayed
  one has, and the two are not equivalent.
\<close>

theorem Record_then_ReplayFS_counterexample:
  "Record sample_env (Some sample_rt) ''fixtures'' None sample_get labelled_world =
     (Inr sample_res,
      \<lparr>files = [(''status-sKBBte7Z.res.txt'', []),
                (''sKBBte7Z.req.txt'', sample_get_bytes),
                (''sKBBte7Z.res.txt'', 200 # sample_ok)],
       calls = [sample_get]\<rparr>)
   \<and> ReplayFS sample_env
        [(''status-sKBBte7Z.res.txt'', []),
         (''sKBBte7Z.req.txt'', sample_get_bytes),
         (''sKBBte7Z.res.txt'', 200 # sample_ok)] sample_get =
       Inl (Errorf_w ''problem while replaying transport: ''
             (Errorf (''ambiguous response: multiple replay files match ''
                @ quote ''*sKBBte7Z.res.txt'')) [])
   \<and> Record sample_env_length (Some sample_rt) ''fixtures'' None sample_get empty_world =
       (Inr sample_res,
        \<lparr>files = [(''sKBBte7Z.req.txt'', sample_get_bytes),
                  (''sKBBte7Z.res.txt'', 200 # sample_ok)],
         calls = [sample_get]\<rparr>)
   \<and> ReplayFS sample_env_length
        [(''sKBBte7Z.req.txt'', sample_get_bytes),
         (''sKBBte7Z.res.txt'', 200 # sample_ok)] sample_get =
       Inr (sample_res\<lparr>response.Header := [''Content-Length'' \<mapsto> [''2'']],
                       Request := Some sample_get\<rparr>)
   \<and> \<not> equivalent
         (sample_res\<lparr>response.Header := [''Content-Length'' \<mapsto> [''2'']],
                     Request := Some sample_get\<rparr>) sample_res"
proof -
  have a: "Record sample_env (Some sample_rt) ''fixtures'' None sample_get labelled_world =
     (Inr sample_res,
      \<lparr>files = [(''status-sKBBte7Z.res.txt'', []),
                (''sKBBte7Z.req.txt'', sample_get_bytes),
                (''sKBBte7Z.res.txt'', 200 # sample_ok)],
       calls = [sample_get]\<rparr>)"
    by (simp add: Record_simps sample_simps labelled_world_def)
  have b: "ReplayFS sample_env
        [(''status-sKBBte7Z.res.txt'', []),
         (''sKBBte7Z.req.txt'', sample_get_bytes),
         (''sKBBte7Z.res.txt'', 200 # sample_ok)] sample_get =
       Inl (Errorf_w ''problem while replaying transport: ''
             (Errorf (''ambiguous response: multiple replay files match ''
                @ quote ''*sKBBte7Z.res.txt'')) [])"
    by (simp add: ReplayFS_simps sample_simps replaying_def)
  have c: "Record sample_env_length (Some sample_rt) ''fixtures'' None sample_get empty_world =
       (Inr sample_res,
        \<lparr>files = [(''sKBBte7Z.req.txt'', sample_get_bytes),
                  (''sKBBte7Z.res.txt'', 200 # sample_ok)],
         calls = [sample_get]\<rparr>)"
    by (simp add: Record_simps sample_simps sample_env_length_def)
  have d: "ReplayFS sample_env_length
        [(''sKBBte7Z.req.txt'', sample_get_bytes),
         (''sKBBte7Z.res.txt'', 200 # sample_ok)] sample_get =
       Inr (sample_res\<lparr>response.Header := [''Content-Length'' \<mapsto> [''2'']],
                       Request := Some sample_get\<rparr>)"
    by (simp add: ReplayFS_simps sample_simps sample_env_length_def sample_read_length)
  have e: "\<not> equivalent
         (sample_res\<lparr>response.Header := [''Content-Length'' \<mapsto> [''2'']],
                     Request := Some sample_get\<rparr>) sample_res"
    by (auto simp: equivalent_def sample_res_def dest: fun_cong [of _ _ "''Content-Length''"])
  from a b c d e show ?thesis by blast
qed

end
